theory Spec2Isabelle
  imports Complex_Main "HOL-Library.Word"
begin

section \<open>Data model of \<^verbatim>\<open>backend/server/main.py\<close>\<close>

subsection \<open>JSON values and Python dictionaries\<close>

text \<open>
  The request carries a JSON Schema as a Python \<^verbatim>\<open>Dict[str, Any]\<close>. A JSON value is
  one of Python's \<^verbatim>\<open>None\<close>, \<^verbatim>\<open>bool\<close>, \<^verbatim>\<open>int\<close>, \<^verbatim>\<open>float\<close>, \<^verbatim>\<open>str\<close>,
  \<^verbatim>\<open>list\<close> and \<^verbatim>\<open>dict\<close>. A dictionary is kept as an association list in insertion
  order; a lookup finds the first binding of the key.
\<close>

datatype json =
    JNull
  | JBool bool
  | JInt int
  | JFloat real
  | JStr string
  | JArr "json list"
  | JObj "(string \<times> json) list"

type_synonym dict = "(string \<times> json) list"

text \<open>\<^verbatim>\<open>d.get(k, default)\<close>: never raises on a dictionary.\<close>

definition dict_get :: "dict \<Rightarrow> string \<Rightarrow> json \<Rightarrow> json" where
  "dict_get d k dflt = (case map_of d k of None \<Rightarrow> dflt | Some v \<Rightarrow> v)"

text \<open>\<^verbatim>\<open>d.pop(k, None)\<close> seen as a new dictionary: every binding of the key is dropped.\<close>

fun dict_pop :: "dict \<Rightarrow> string \<Rightarrow> dict" where
  "dict_pop [] k = []"
| "dict_pop ((k', v) # d) k = (if k' = k then dict_pop d k else (k', v) # dict_pop d k)"

subsection \<open>Requests, responses, stored extractors\<close>

text \<open>
  Modelled from the spec: the class \<^verbatim>\<open>FewShotExample\<close> of \<^verbatim>\<open>extraction.utils\<close> is not
  among the sources. The spec describes it as an input text with the expected structured
  output.
\<close>

record FewShotExample =
  example_text :: string
  example_output :: json

text \<open>
  \<^verbatim>\<open>class ExtractRequest(CustomUserType)\<close>: \<^verbatim>\<open>instructions\<close> and \<^verbatim>\<open>examples\<close> are
  \<^verbatim>\<open>Optional\<close> with default \<^verbatim>\<open>None\<close>.
\<close>

record ExtractRequest =
  request_text :: string
  json_schema :: dict
  instructions :: "string option"
  examples :: "FewShotExample list option"

text \<open>\<^verbatim>\<open>class ExtractResponse(BaseModel)\<close> with the single field \<^verbatim>\<open>extracted: Any\<close>.\<close>

record ExtractResponse =
  extracted :: json

type_synonym uuid = "128 word"

text \<open>\<^verbatim>\<open>class ExtractFromFileRequest(TypedDict)\<close>.\<close>

record ExtractFromFileRequest =
  extractor_id :: uuid
  file_text :: string

text \<open>
  Modelled from the spec: the table class \<^verbatim>\<open>Extractor\<close> of \<^verbatim>\<open>db.models\<close> is not among
  the sources. The endpoint reads its columns \<^verbatim>\<open>uuid\<close>, \<^verbatim>\<open>schema\<close> and \<^verbatim>\<open>examples\<close>;
  the spec adds the stored instructions.
\<close>

record Extractor =
  extractor_uuid :: uuid
  extractor_schema :: dict
  extractor_instruction :: "string option"
  extractor_examples :: "FewShotExample list"

subsection \<open>Exceptions\<close>

text \<open>
  The two exception classes of \<^verbatim>\<open>jsonschema.exceptions\<close> that carry a \<^verbatim>\<open>message\<close>.
  They are siblings: neither is a subclass of the other, so an
  \<^verbatim>\<open>except exceptions.ValidationError\<close> clause lets a \<^verbatim>\<open>SchemaError\<close> pass.
\<close>

datatype schema_exception =
    ValidationError string
  | SchemaError string

datatype error =
    HTTPException nat string
  | SchemaInvalid string
  | Uncaught schema_exception
  | AssertionError
  | MultipleResultsFound
  | UpstreamFailure string

subsection \<open>Function descriptors and prompts\<close>

record function_schema =
  fn_name :: json
  fn_description :: json
  fn_parameters :: dict

datatype instruction_part =
    Directive
  | Instructions string
  | EntityName json

datatype message =
    SystemMessage "instruction_part list"
  | HumanMessage string
  | AIMessage json
  | TextSlot

subsection \<open>External collaborators and the trace of pipeline work\<close>

text \<open>
  Two library calls are outside the repository and are parameters of the model:
  \<^verbatim>\<open>Draft202012Validator.check_schema\<close>, which returns normally (\<open>None\<close>) or raises, and
  the runnable built by \<^verbatim>\<open>create_openai_fn_runnable\<close>, whose \<^verbatim>\<open>invoke\<close> calls the LLM
  service with the single function descriptor and the prompt bound to the text.
\<close>

record collaborators =
  check_schema :: "dict \<Rightarrow> schema_exception option"
  llm_invoke :: "function_schema list \<Rightarrow> message list \<Rightarrow> error + json"

text \<open>Every piece of work of the pipeline leaves one event, in program order.\<close>

datatype event =
    Validate dict
  | BuildPrompt "string option" "FewShotExample list option" json
  | Convert dict
  | Invoke "function_schema list" "message list"
  | Lookup uuid

fun is_validate :: "event \<Rightarrow> bool" where
  "is_validate (Validate s) = True"
| "is_validate e = False"

fun is_invoke :: "event \<Rightarrow> bool" where
  "is_invoke (Invoke fs p) = True"
| "is_invoke e = False"

fun is_pipeline_work :: "event \<Rightarrow> bool" where
  "is_pipeline_work (Lookup u) = False"
| "is_pipeline_work e = True"

section \<open>Operations\<close>

subsection \<open>Helpers of the repository that are not among the sources\<close>

text \<open>
  Modelled from the spec: \<^verbatim>\<open>validate_json_schema\<close> of \<^verbatim>\<open>server.validators\<close> is not
  among the sources. The spec: given a value claiming to be a JSON Schema, verify that it
  is structurally valid under Draft 2020-12; return nothing on success; on failure signal
  \<^verbatim>\<open>SchemaInvalid\<close> carrying the underlying validator's message.
\<close>

definition validate_json_schema ::
  "collaborators \<Rightarrow> dict \<Rightarrow> (error + unit) \<times> event list" where
  "validate_json_schema env v =
     (case check_schema env v of
        None \<Rightarrow> (Inr (), [Validate v])
      | Some (ValidationError m) \<Rightarrow> (Inl (SchemaInvalid m), [Validate v])
      | Some (SchemaError m) \<Rightarrow> (Inl (SchemaInvalid m), [Validate v]))"

text \<open>
  Modelled from the spec: \<^verbatim>\<open>convert_json_schema_to_openai_schema\<close> of
  \<^verbatim>\<open>extraction.utils\<close> is not among the sources. The spec: the name is the schema's
  \<^verbatim>\<open>title\<close> if present, else the empty string; the description is the schema's
  \<^verbatim>\<open>description\<close> if present, else empty; the parameters are the schema verbatim minus
  the two fields consumed; no schema is rejected at this stage.
\<close>

definition convert_json_schema_to_openai_schema :: "dict \<Rightarrow> error + function_schema" where
  "convert_json_schema_to_openai_schema schema =
     Inr \<lparr> fn_name = dict_get schema ''title'' (JStr []),
           fn_description = dict_get schema ''description'' (JStr []),
           fn_parameters = dict_pop (dict_pop schema ''title'') ''description'' \<rparr>"

text \<open>
  Modelled from the spec: \<^verbatim>\<open>make_prompt_template\<close> of \<^verbatim>\<open>extraction.utils\<close> is not
  among the sources. The spec: a system instruction made of a fixed directive, the
  caller's instructions if present and the name if non-empty; then each example as a
  (human text, assistant structured output) pair, in the given order; then the slot for
  the input text, always present, always last.
\<close>

definition render_example :: "FewShotExample \<Rightarrow> message list" where
  "render_example e = [HumanMessage (example_text e), AIMessage (example_output e)]"

definition system_instruction :: "string option \<Rightarrow> json \<Rightarrow> message" where
  "system_instruction instr name =
     SystemMessage
       (Directive
        # (case instr of None \<Rightarrow> [] | Some i \<Rightarrow> [Instructions i])
        @ (if name = JStr [] then [] else [EntityName name]))"

definition make_prompt_template ::
  "string option \<Rightarrow> FewShotExample list option \<Rightarrow> json \<Rightarrow> message list" where
  "make_prompt_template instr exs name =
     system_instruction instr name
     # concat (map render_example (case exs of None \<Rightarrow> [] | Some es \<Rightarrow> es))
     @ [TextSlot]"

text \<open>Binding \<^verbatim>\<open>{"text": ...}\<close> at call time fills the slot.\<close>

fun bind_message :: "string \<Rightarrow> message \<Rightarrow> message" where
  "bind_message t TextSlot = HumanMessage t"
| "bind_message t m = m"

definition format_prompt :: "message list \<Rightarrow> string \<Rightarrow> message list" where
  "format_prompt prompt t = map (bind_message t) prompt"

text \<open>
  The example exchanges of a prompt: every human message directly followed by an
  assistant message, read from the front.
\<close>

fun exchanges :: "message list \<Rightarrow> (string \<times> json) list" where
  "exchanges (HumanMessage h # AIMessage a # ms) = (h, a) # exchanges ms"
| "exchanges (m # ms) = exchanges ms"
| "exchanges [] = []"

subsection \<open>\<^verbatim>\<open>ExtractRequest.validate_schema\<close> and the construction of a request\<close>

text \<open>
  \<^verbatim>\<open>@validator("json_schema") def validate_schema(cls, v): validate_json_schema(v); return v\<close>.
  An exception of the helper leaves the validator, and the construction fails with it.
\<close>

definition validate_schema :: "collaborators \<Rightarrow> dict \<Rightarrow> (error + dict) \<times> event list" where
  "validate_schema env v =
     (case validate_json_schema env v of
        (Inl e, tr) \<Rightarrow> (Inl e, tr)
      | (Inr u, tr) \<Rightarrow> (Inr v, tr))"

definition new_ExtractRequest ::
  "collaborators \<Rightarrow> string \<Rightarrow> dict \<Rightarrow> string option \<Rightarrow> FewShotExample list option
     \<Rightarrow> (error + ExtractRequest) \<times> event list" where
  "new_ExtractRequest env t schema instr exs =
     (case validate_schema env schema of
        (Inl e, tr) \<Rightarrow> (Inl e, tr)
      | (Inr v, tr) \<Rightarrow>
          (Inr \<lparr> request_text = t, json_schema = v, instructions = instr, examples = exs \<rparr>,
           tr))"

subsection \<open>\<^verbatim>\<open>extraction_runnable\<close>\<close>

text \<open>
  Lines 100 to 118, in program order: the name is read, the schema is checked (only a
  \<^verbatim>\<open>ValidationError\<close> is turned into the HTTP error 422), the prompt is built, the schema
  is converted, the runnable is invoked on the text, and its result is wrapped.
\<close>

definition extraction_runnable ::
  "collaborators \<Rightarrow> ExtractRequest \<Rightarrow> (error + ExtractResponse) \<times> event list" where
  "extraction_runnable env extraction_request =
     (let schema = json_schema extraction_request;
          name = dict_get schema ''title'' (JStr [])
      in case check_schema env schema of
           Some (ValidationError m) \<Rightarrow>
             (Inl (HTTPException 422 (''Invalid schema: '' @ m)), [Validate schema])
         | Some (SchemaError m) \<Rightarrow>
             (Inl (Uncaught (SchemaError m)), [Validate schema])
         | None \<Rightarrow>
             (let prompt = make_prompt_template (instructions extraction_request)
                             (examples extraction_request) name;
                  built = [Validate schema,
                           BuildPrompt (instructions extraction_request)
                             (examples extraction_request) name]
              in case convert_json_schema_to_openai_schema schema of
                   Inl e \<Rightarrow> (Inl e, built @ [Convert schema])
                 | Inr openai_function \<Rightarrow>
                     (let bound = format_prompt prompt (request_text extraction_request);
                          tr = built @ [Convert schema, Invoke [openai_function] bound]
                      in case llm_invoke env [openai_function] bound of
                           Inl e \<Rightarrow> (Inl e, tr)
                         | Inr extracted_content \<Rightarrow>
                             (Inr \<lparr> extracted = extracted_content \<rparr>, tr))))"

subsection \<open>The route \<^verbatim>\<open>/extract_text\<close>\<close>

text \<open>
  \<^verbatim>\<open>add_routes(app, extraction_runnable, path="/extract_text", ...)\<close>: the body of a call
  is made into an \<^verbatim>\<open>ExtractRequest\<close>, which is then handed to the runnable.
\<close>

definition extract_text ::
  "collaborators \<Rightarrow> string \<Rightarrow> dict \<Rightarrow> string option \<Rightarrow> FewShotExample list option
     \<Rightarrow> (error + ExtractResponse) \<times> event list" where
  "extract_text env t schema instr exs =
     (case new_ExtractRequest env t schema instr exs of
        (Inl e, tr) \<Rightarrow> (Inl e, tr)
      | (Inr extraction_request, tr) \<Rightarrow>
          (case extraction_runnable env extraction_request of
             (r, tr') \<Rightarrow> (r, tr @ tr')))"

subsection \<open>\<^verbatim>\<open>extract_using_existing_extractor\<close>\<close>

text \<open>
  \<^verbatim>\<open>Query.scalar()\<close>: \<^verbatim>\<open>None\<close> when no row matches, the row when one matches,
  \<^verbatim>\<open>MultipleResultsFound\<close> otherwise.
\<close>

fun scalar :: "'a list \<Rightarrow> error + 'a option" where
  "scalar [] = Inr None"
| "scalar [x] = Inr (Some x)"
| "scalar (x # y # zs) = Inl MultipleResultsFound"

definition query_extractor :: "Extractor list \<Rightarrow> uuid \<Rightarrow> error + Extractor option" where
  "query_extractor session u = scalar (filter (\<lambda>e. extractor_uuid e = u) session)"

text \<open>
  Lines 137 to 149. The session is the table of stored extractors. The schema and the
  examples of the row are read; the examples are asserted to be the empty list; the
  response is the literal \<^verbatim>\<open>"placeholder"\<close>.
\<close>

definition extract_using_existing_extractor ::
  "Extractor list \<Rightarrow> ExtractFromFileRequest \<Rightarrow> (error + ExtractResponse) \<times> event list" where
  "extract_using_existing_extractor session extract_request =
     (case query_extractor session (extractor_id extract_request) of
        Inl e \<Rightarrow> (Inl e, [Lookup (extractor_id extract_request)])
      | Inr None \<Rightarrow>
          (Inl (HTTPException 404 ''Extractor not found.''),
           [Lookup (extractor_id extract_request)])
      | Inr (Some extractor) \<Rightarrow>
          (let json_schema = extractor_schema extractor;
               examples = extractor_examples extractor
           in if examples = []
              then (Inr \<lparr> extracted = JStr ''placeholder'' \<rparr>,
                    [Lookup (extractor_id extract_request)])
              else (Inl AssertionError, [Lookup (extractor_id extract_request)])))"

text \<open>
  What the primary pipeline is given when the stored fields of an extractor stand in for
  the fields of a request.
\<close>

definition request_of_extractor :: "Extractor \<Rightarrow> string \<Rightarrow> ExtractRequest" where
  "request_of_extractor extractor t =
     \<lparr> request_text = t,
       json_schema = extractor_schema extractor,
       instructions = extractor_instruction extractor,
       examples = Some (extractor_examples extractor) \<rparr>"

subsection \<open>Test doubles for the collaborators\<close>

text \<open>
  The part of the library's check that concerns the keyword \<^verbatim>\<open>type\<close> given as a string:
  the meta-schema of Draft 2020-12 admits the seven simple type names, and
  \<^verbatim>\<open>check_schema\<close> reports a violation by raising \<^verbatim>\<open>SchemaError\<close>.
\<close>

definition simple_types :: "string list" where
  "simple_types =
     [''array'', ''boolean'', ''integer'', ''null'', ''number'', ''object'', ''string'']"

definition check_type_keyword :: "dict \<Rightarrow> schema_exception option" where
  "check_type_keyword schema =
     (case map_of schema ''type'' of
        Some (JStr t) \<Rightarrow>
          (if t \<in> set simple_types then None
           else Some (SchemaError
                  (CHR 0x27 # t @ CHR 0x27 # '' is not valid under any of the given schemas'')))
      | _ \<Rightarrow> None)"

text \<open>An LLM service that reports fixed call arguments, as the mocked service of a test.\<close>

definition fixed_llm :: "json \<Rightarrow> function_schema list \<Rightarrow> message list \<Rightarrow> error + json" where
  "fixed_llm v fs p = Inr v"

definition test_env :: "json \<Rightarrow> collaborators" where
  "test_env v = \<lparr> check_schema = check_type_keyword, llm_invoke = fixed_llm v \<rparr>"

definition person_schema :: dict where
  "person_schema =
     [(''title'', JStr ''Person''),
      (''type'', JStr ''object''),
      (''properties'',
         JObj [(''name'', JObj [(''type'', JStr ''string'')]),
               (''age'', JObj [(''type'', JStr ''integer'')])]),
      (''required'', JArr [JStr ''name'', JStr ''age''])]"

definition john :: json where
  "john = JObj [(''name'', JStr ''John''), (''age'', JInt 30)]"

text \<open>Call arguments that do not fit the person schema: the name is a number.\<close>

definition wrong_name :: json where
  "wrong_name = JObj [(''name'', JInt 5)]"

definition bogus_schema :: dict where
  "bogus_schema = [(''type'', JStr ''bogus'')]"

definition john_request :: ExtractRequest where
  "john_request =
     \<lparr> request_text = ''John is 30'', json_schema = person_schema,
       instructions = None, examples = None \<rparr>"

definition bogus_request :: ExtractRequest where
  "bogus_request =
     \<lparr> request_text = ''John is 30'', json_schema = bogus_schema,
       instructions = None, examples = None \<rparr>"

definition ann_example :: FewShotExample where
  "ann_example =
     \<lparr> example_text = ''Ann is 41'',
       example_output = JObj [(''name'', JStr ''Ann''), (''age'', JInt 41)] \<rparr>"

definition bob_example :: FewShotExample where
  "bob_example =
     \<lparr> example_text = ''Bob is 7'',
       example_output = JObj [(''name'', JStr ''Bob''), (''age'', JInt 7)] \<rparr>"

definition person_extractor :: Extractor where
  "person_extractor =
     \<lparr> extractor_uuid = 7, extractor_schema = person_schema,
       extractor_instruction = None, extractor_examples = [] \<rparr>"

definition example_extractor :: Extractor where
  "example_extractor =
     \<lparr> extractor_uuid = 8, extractor_schema = person_schema,
       extractor_instruction = None, extractor_examples = [ann_example] \<rparr>"

definition stored_extractors :: "Extractor list" where
  "stored_extractors = [person_extractor, example_extractor]"

definition extract_with :: "uuid \<Rightarrow> ExtractFromFileRequest" where
  "extract_with u = \<lparr> extractor_id = u, file_text = ''John is 30'' \<rparr>"

section \<open>Properties\<close>

subsection \<open>Auxiliary facts\<close>

lemma exchanges_examples:
  "exchanges (concat (map render_example es) @ ms) =
     map (\<lambda>e. (example_text e, example_output e)) es @ exchanges ms"
  by (induction es) (simp_all add: render_example_def)

lemma bind_examples:
  "map (bind_message t) (concat (map render_example es)) = concat (map render_example es)"
  by (induction es) (simp_all add: render_example_def)

lemma check_type_keyword_person: "check_type_keyword person_schema = None"
  by (simp add: check_type_keyword_def person_schema_def simple_types_def)

lemma check_type_keyword_bogus:
  "check_type_keyword bogus_schema =
     Some (SchemaError (CHR 0x27 # ''bogus'' @ CHR 0x27 # '' is not valid under any of the given schemas''))"
  by (simp add: check_type_keyword_def bogus_schema_def simple_types_def)

text \<open>
  The three outcomes of the \<^verbatim>\<open>try\<close> block of \<^verbatim>\<open>extraction_runnable\<close>. Whatever
  the check raises, the run ends after the check and the LLM service is not invoked.
\<close>

lemma runnable_rejected:
  "check_schema env (json_schema r) = Some ex \<Longrightarrow>
     snd (extraction_runnable env r) = [Validate (json_schema r)] \<and>
     (\<exists>e. fst (extraction_runnable env r) = Inl e)"
  by (cases ex) (simp_all add: extraction_runnable_def)

lemma runnable_ValidationError:
  "check_schema env (json_schema r) = Some (ValidationError m) \<Longrightarrow>
     extraction_runnable env r =
       (Inl (HTTPException 422 (''Invalid schema: '' @ m)), [Validate (json_schema r)])"
  by (simp add: extraction_runnable_def)

lemma runnable_SchemaError:
  "check_schema env (json_schema r) = Some (SchemaError m) \<Longrightarrow>
     extraction_runnable env r =
       (Inl (Uncaught (SchemaError m)), [Validate (json_schema r)])"
  by (simp add: extraction_runnable_def)

lemma runnable_accepted:
  "check_schema env (json_schema r) = None \<Longrightarrow>
     convert_json_schema_to_openai_schema (json_schema r) = Inr f \<Longrightarrow>
     snd (extraction_runnable env r) =
       [Validate (json_schema r),
        BuildPrompt (instructions r) (examples r) (dict_get (json_schema r) ''title'' (JStr [])),
        Convert (json_schema r),
        Invoke [f] (format_prompt (make_prompt_template (instructions r) (examples r)
           (dict_get (json_schema r) ''title'' (JStr []))) (request_text r))]"
  by (simp add: extraction_runnable_def Let_def split: sum.splits)

lemma new_ExtractRequest_accepted:
  "check_schema env s = None \<Longrightarrow>
     new_ExtractRequest env t s i e =
       (Inr \<lparr> request_text = t, json_schema = s, instructions = i, examples = e \<rparr>,
        [Validate s])"
  by (simp add: new_ExtractRequest_def validate_schema_def validate_json_schema_def)

lemma new_ExtractRequest_rejected:
  "fst (validate_json_schema env s) = Inl er \<Longrightarrow>
     new_ExtractRequest env t s i e = (Inl er, [Validate s])"
  by (auto simp: new_ExtractRequest_def validate_schema_def validate_json_schema_def
           split: option.splits schema_exception.splits)

lemma query_person: "query_extractor stored_extractors 7 = Inr (Some person_extractor)"
  by (simp add: query_extractor_def stored_extractors_def person_extractor_def
        example_extractor_def)

lemma query_example: "query_extractor stored_extractors 8 = Inr (Some example_extractor)"
  by (simp add: query_extractor_def stored_extractors_def person_extractor_def
        example_extractor_def)

lemma query_unknown: "filter (\<lambda>e. extractor_uuid e = 9) stored_extractors = []"
  by (simp add: stored_extractors_def person_extractor_def example_extractor_def)

lemma john_run:
  "fst (extraction_runnable (test_env john) john_request) = Inr \<lparr> extracted = john \<rparr>"
  by (simp add: extraction_runnable_def john_request_def test_env_def Let_def
        check_type_keyword_person convert_json_schema_to_openai_schema_def fixed_llm_def)

lemma john_extract_text:
  "fst (extract_text (test_env john) ''John is 30'' person_schema None None) =
     Inr \<lparr> extracted = john \<rparr>"
  by (simp add: extract_text_def new_ExtractRequest_def validate_schema_def
        validate_json_schema_def extraction_runnable_def test_env_def Let_def
        check_type_keyword_person convert_json_schema_to_openai_schema_def fixed_llm_def)

lemma untitled_schema_has_empty_name:
  "snd (extraction_runnable (test_env john)
          \<lparr> request_text = ''John is 30'', json_schema = [(''type'', JStr ''object'')],
            instructions = None, examples = None \<rparr>) ! 1 =
     BuildPrompt None None (JStr [])"
  by (simp add: extraction_runnable_def test_env_def check_type_keyword_def simple_types_def
        Let_def dict_get_def convert_json_schema_to_openai_schema_def fixed_llm_def)

lemma two_examples_prompt:
  "format_prompt (make_prompt_template None (Some [ann_example, bob_example]) (JStr ''Person''))
     ''John is 30'' =
   [SystemMessage [Directive, EntityName (JStr ''Person'')],
    HumanMessage ''Ann is 41'', AIMessage (example_output ann_example),
    HumanMessage ''Bob is 7'', AIMessage (example_output bob_example),
    HumanMessage ''John is 30'']"
  by (simp add: make_prompt_template_def format_prompt_def system_instruction_def
        render_example_def ann_example_def bob_example_def)

subsection \<open>Invalid schemas in \<^verbatim>\<open>extraction_runnable\<close>\<close>

text \<open>
  Claim C1: for every request whose schema is invalid under Draft 2020-12, for example
  \<^verbatim>\<open>{"type": "bogus"}\<close>, \<^verbatim>\<open>extraction_runnable\<close> fails with the HTTP error 422 that
  carries the validator's message, and the LLM service is not invoked.

  The second half holds (\<open>runnable_rejected\<close>). The first half needs the check to raise
  \<^verbatim>\<open>ValidationError\<close> (\<open>runnable_ValidationError\<close>); the library reports an invalid
  schema by raising \<^verbatim>\<open>SchemaError\<close>, which the \<^verbatim>\<open>except\<close> clause does not name, so
  the exception leaves the function as it is and no HTTP error 422 is made. The run on
  \<^verbatim>\<open>{"type": "bogus"}\<close>:
\<close>

theorem bogus_schema_escapes_as_SchemaError:
  "extraction_runnable (test_env john) bogus_request =
     (Inl (Uncaught (SchemaError (CHR 0x27 # ''bogus'' @ CHR 0x27 # '' is not valid under any of the given schemas''))),
      [Validate bogus_schema])"
  by (simp add: extraction_runnable_def bogus_request_def test_env_def
        check_type_keyword_bogus)

subsection \<open>The endpoint \<^verbatim>\<open>/extract\<close> with a stored extractor\<close>

text \<open>
  Claim C2: when the identifier resolves to a stored extractor, the endpoint performs the
  pipeline of \<^verbatim>\<open>extraction_runnable\<close> on the stored schema, instructions and examples
  and returns the value that the pipeline extracts.

  The comment at line 145 announces the use of the stored schema and examples; lines 146
  to 149 read both, use neither, and return the literal \<^verbatim>\<open>"placeholder"\<close>. For the
  extractor \<open>7\<close>, stored with the person schema and no examples, the endpoint answers
  \<^verbatim>\<open>"placeholder"\<close> and invokes nothing, while the pipeline on the stored fields invokes
  the LLM service and answers with its call arguments.
\<close>

theorem stored_extractor_skips_pipeline:
  "fst (extract_using_existing_extractor stored_extractors (extract_with 7)) =
     Inr \<lparr> extracted = JStr ''placeholder'' \<rparr> \<and>
   fst (extraction_runnable (test_env john)
          (request_of_extractor person_extractor (file_text (extract_with 7)))) =
     Inr \<lparr> extracted = john \<rparr> \<and>
   JStr ''placeholder'' \<noteq> john \<and>
   filter is_invoke
     (snd (extract_using_existing_extractor stored_extractors (extract_with 7))) = [] \<and>
   filter is_invoke
     (snd (extraction_runnable (test_env john)
          (request_of_extractor person_extractor (file_text (extract_with 7))))) \<noteq> []"
  by (simp add: extract_using_existing_extractor_def extract_with_def query_person
        person_extractor_def john_def extraction_runnable_def request_of_extractor_def
        test_env_def Let_def check_type_keyword_person
        convert_json_schema_to_openai_schema_def fixed_llm_def)

subsection \<open>The result of a successful run\<close>

text \<open>
  Claim C3: the extracted value of a successful run of \<^verbatim>\<open>extraction_runnable\<close> is
  exactly the call arguments that the LLM service returned, unmodified and not validated
  against the schema. In both directions: a run that succeeds carries the value that the
  service returned for its descriptor and bound prompt; and whenever the schema passes
  the check and the service returns a value, whatever that value is and whether or not it
  fits the schema, the run succeeds with that value and its work ends with the
  invocation.
\<close>

theorem extracted_is_llm_result:
  "(\<forall>resp tr. extraction_runnable env r = (Inr resp, tr) \<longrightarrow>
      (\<exists>f. convert_json_schema_to_openai_schema (json_schema r) = Inr f \<and>
           llm_invoke env [f]
             (format_prompt
                (make_prompt_template (instructions r) (examples r)
                   (dict_get (json_schema r) ''title'' (JStr [])))
                (request_text r)) = Inr (extracted resp) \<and>
           tr = [Validate (json_schema r),
                 BuildPrompt (instructions r) (examples r)
                   (dict_get (json_schema r) ''title'' (JStr [])),
                 Convert (json_schema r),
                 Invoke [f]
                   (format_prompt
                      (make_prompt_template (instructions r) (examples r)
                         (dict_get (json_schema r) ''title'' (JStr [])))
                      (request_text r))])) \<and>
   (\<forall>f v. check_schema env (json_schema r) = None \<and>
      convert_json_schema_to_openai_schema (json_schema r) = Inr f \<and>
      llm_invoke env [f]
        (format_prompt
           (make_prompt_template (instructions r) (examples r)
              (dict_get (json_schema r) ''title'' (JStr [])))
           (request_text r)) = Inr v \<longrightarrow>
      extraction_runnable env r =
        (Inr \<lparr> extracted = v \<rparr>,
         [Validate (json_schema r),
          BuildPrompt (instructions r) (examples r)
            (dict_get (json_schema r) ''title'' (JStr [])),
          Convert (json_schema r),
          Invoke [f]
            (format_prompt
               (make_prompt_template (instructions r) (examples r)
                  (dict_get (json_schema r) ''title'' (JStr [])))
               (request_text r))]))"
proof (intro conjI allI impI)
  fix resp tr
  assume "extraction_runnable env r = (Inr resp, tr)"
  then show "\<exists>f. convert_json_schema_to_openai_schema (json_schema r) = Inr f \<and>
           llm_invoke env [f]
             (format_prompt
                (make_prompt_template (instructions r) (examples r)
                   (dict_get (json_schema r) ''title'' (JStr [])))
                (request_text r)) = Inr (extracted resp) \<and>
           tr = [Validate (json_schema r),
                 BuildPrompt (instructions r) (examples r)
                   (dict_get (json_schema r) ''title'' (JStr [])),
                 Convert (json_schema r),
                 Invoke [f]
                   (format_prompt
                      (make_prompt_template (instructions r) (examples r)
                         (dict_get (json_schema r) ''title'' (JStr [])))
                      (request_text r))]"
    by (auto simp: extraction_runnable_def Let_def
             split: option.splits schema_exception.splits sum.splits)
next
  fix f v
  assume "check_schema env (json_schema r) = None \<and>
      convert_json_schema_to_openai_schema (json_schema r) = Inr f \<and>
      llm_invoke env [f]
        (format_prompt
           (make_prompt_template (instructions r) (examples r)
              (dict_get (json_schema r) ''title'' (JStr [])))
           (request_text r)) = Inr v"
  then show "extraction_runnable env r =
        (Inr \<lparr> extracted = v \<rparr>,
         [Validate (json_schema r),
          BuildPrompt (instructions r) (examples r)
            (dict_get (json_schema r) ''title'' (JStr [])),
          Convert (json_schema r),
          Invoke [f]
            (format_prompt
               (make_prompt_template (instructions r) (examples r)
                  (dict_get (json_schema r) ''title'' (JStr [])))
               (request_text r))])"
    by (simp add: extraction_runnable_def Let_def)
qed

theorem extracted_is_llm_result_witness:
  "check_schema (test_env wrong_name) (json_schema john_request) = None \<and>
   fst (extraction_runnable (test_env wrong_name) john_request) =
     Inr \<lparr> extracted = JObj [(''name'', JInt 5)] \<rparr> \<and>
   fst (extraction_runnable (test_env john) john_request) = Inr \<lparr> extracted = john \<rparr> \<and>
   (\<exists>f p. llm_invoke (test_env john) [f] p = Inr john)"
proof -
  let ?p = "format_prompt
           (make_prompt_template (instructions john_request) (examples john_request)
              (dict_get (json_schema john_request) ''title'' (JStr [])))
           (request_text john_request)"
  have c: "check_schema (test_env wrong_name) (json_schema john_request) = None"
    by (simp add: test_env_def john_request_def check_type_keyword_person)
  obtain f where f: "convert_json_schema_to_openai_schema (json_schema john_request) = Inr f"
    by (simp add: convert_json_schema_to_openai_schema_def)
  have l: "llm_invoke (test_env wrong_name) [f] ?p = Inr wrong_name"
    by (simp add: test_env_def fixed_llm_def)
  from extracted_is_llm_result [of "test_env wrong_name" john_request]
  have "\<forall>f v. check_schema (test_env wrong_name) (json_schema john_request) = None \<and>
      convert_json_schema_to_openai_schema (json_schema john_request) = Inr f \<and>
      llm_invoke (test_env wrong_name) [f] ?p = Inr v \<longrightarrow>
      fst (extraction_runnable (test_env wrong_name) john_request) = Inr \<lparr> extracted = v \<rparr>"
    by (metis fst_conv)
  then have fwd: "fst (extraction_runnable (test_env wrong_name) john_request) =
     Inr \<lparr> extracted = wrong_name \<rparr>"
    using c f l by blast
  have run: "extraction_runnable (test_env john) john_request =
     (Inr \<lparr> extracted = john \<rparr>, snd (extraction_runnable (test_env john) john_request))"
    using john_run by (simp add: prod_eq_iff)
  from extracted_is_llm_result [of "test_env john" john_request]
  have "\<forall>resp tr. extraction_runnable (test_env john) john_request = (Inr resp, tr) \<longrightarrow>
      (\<exists>f. llm_invoke (test_env john) [f] ?p = Inr (extracted resp))"
    by blast
  with run have bwd: "\<exists>f. llm_invoke (test_env john) [f] ?p = Inr (extracted \<lparr> extracted = john \<rparr>)"
    by blast
  then have bwd': "\<exists>f p. llm_invoke (test_env john) [f] p = Inr john"
    by auto
  from c fwd john_run bwd' show ?thesis
    by (simp add: wrong_name_def)
qed

subsection \<open>How often the schema is validated\<close>

text \<open>
  Against claim C4: a call of \<^verbatim>\<open>/extract_text\<close> with the person schema succeeds, and
  its trace holds two validations of the schema, not one.
\<close>

theorem person_schema_is_validated_twice:
  "fst (extract_text (test_env john) ''John is 30'' person_schema None None) =
     Inr \<lparr> extracted = john \<rparr> \<and>
   filter is_validate
     (snd (extract_text (test_env john) ''John is 30'' person_schema None None)) =
     [Validate person_schema, Validate person_schema] \<and>
   length (filter is_validate
     (snd (extract_text (test_env john) ''John is 30'' person_schema None None))) \<noteq> 1"
  by (simp add: extract_text_def new_ExtractRequest_def validate_schema_def
        validate_json_schema_def extraction_runnable_def test_env_def Let_def
        check_type_keyword_person convert_json_schema_to_openai_schema_def fixed_llm_def)

text \<open>
  Claim C4, amended: for every request processed end to end through \<^verbatim>\<open>/extract_text\<close>,
  the schema is validated exactly twice, first by the validator of the request when the
  request is constructed and then by the check inside \<^verbatim>\<open>extraction_runnable\<close>, and both
  validations happen before the schema is converted to a function descriptor.
\<close>

theorem schema_validated_twice_before_conversion:
  assumes "fst (extract_text env t s i e) = Inr resp"
  shows "\<exists>f p. snd (extract_text env t s i e) =
           [Validate s, Validate s, BuildPrompt i e (dict_get s ''title'' (JStr [])),
            Convert s, Invoke [f] p] \<and>
         convert_json_schema_to_openai_schema s = Inr f"
proof -
  have ok: "check_schema env s = None"
    using assms
    by (auto simp: extract_text_def new_ExtractRequest_def validate_schema_def
          validate_json_schema_def split: option.splits schema_exception.splits)
  obtain f where f: "convert_json_schema_to_openai_schema s = Inr f"
    by (simp add: convert_json_schema_to_openai_schema_def)
  let ?r = "\<lparr> request_text = t, json_schema = s, instructions = i, examples = e \<rparr>"
  have "snd (extract_text env t s i e) = [Validate s] @ snd (extraction_runnable env ?r)"
    using ok by (simp add: extract_text_def new_ExtractRequest_accepted split: prod.splits)
  with runnable_accepted [of env ?r f] ok f show ?thesis by simp
qed

theorem schema_validated_twice_before_conversion_witness:
  "fst (extract_text (test_env john) ''John is 30'' person_schema None None) =
     Inr \<lparr> extracted = john \<rparr> \<and>
   (\<exists>f p. snd (extract_text (test_env john) ''John is 30'' person_schema None None) =
      [Validate person_schema, Validate person_schema,
       BuildPrompt None None (JStr ''Person''), Convert person_schema, Invoke [f] p])"
proof -
  have n: "dict_get person_schema ''title'' (JStr []) = JStr ''Person''"
    by (simp add: dict_get_def person_schema_def)
  from schema_validated_twice_before_conversion [OF john_extract_text] show ?thesis
    using john_extract_text n by auto
qed

subsection \<open>An unknown extractor\<close>

text \<open>
  Claim C5: when no stored extractor has the identifier of the call, the endpoint
  \<^verbatim>\<open>/extract\<close> fails with the HTTP error 404 "Extractor not found.", which differs from
  the error of an invalid schema, and no schema validation, conversion, prompt building or
  LLM invocation has been performed.
\<close>

theorem unknown_extractor_not_found:
  assumes "filter (\<lambda>e. extractor_uuid e = extractor_id rq) session = []"
  shows "extract_using_existing_extractor session rq =
           (Inl (HTTPException 404 ''Extractor not found.''), [Lookup (extractor_id rq)]) \<and>
         filter is_pipeline_work (snd (extract_using_existing_extractor session rq)) = [] \<and>
         fst (extract_using_existing_extractor session rq) \<noteq> Inl (SchemaInvalid m) \<and>
         fst (extract_using_existing_extractor session rq) \<noteq> Inl (HTTPException 422 d)"
  using assms by (simp add: extract_using_existing_extractor_def query_extractor_def)

theorem unknown_extractor_not_found_witness:
  "filter (\<lambda>e. extractor_uuid e = extractor_id (extract_with 9)) stored_extractors = [] \<and>
   extract_using_existing_extractor stored_extractors (extract_with 9) =
     (Inl (HTTPException 404 ''Extractor not found.''), [Lookup 9])"
proof -
  have h: "filter (\<lambda>e. extractor_uuid e = extractor_id (extract_with 9)) stored_extractors = []"
    by (simp add: extract_with_def query_unknown)
  from unknown_extractor_not_found [OF h] show ?thesis
    using h by (simp add: extract_with_def)
qed

subsection \<open>The name derived from the schema\<close>

text \<open>
  Claim C6: for every schema that \<^verbatim>\<open>extraction_runnable\<close> accepts, the name it derives
  and hands to the prompt builder is the value of the schema's \<^verbatim>\<open>title\<close> when the
  schema has one, and the empty string when it has none; the title "Person" gives the
  name "Person".
\<close>

theorem name_is_title_or_empty:
  assumes "check_schema env (json_schema r) = None"
  shows "\<exists>rest. snd (extraction_runnable env r) =
           Validate (json_schema r)
           # BuildPrompt (instructions r) (examples r)
               (case map_of (json_schema r) ''title'' of None \<Rightarrow> JStr [] | Some t \<Rightarrow> t)
           # rest"
  using assms
  by (simp add: extraction_runnable_def Let_def dict_get_def split: sum.splits)

theorem name_is_title_or_empty_witness:
  "check_schema (test_env john) (json_schema john_request) = None \<and>
   (\<exists>rest. snd (extraction_runnable (test_env john) john_request) =
      Validate person_schema # BuildPrompt None None (JStr ''Person'') # rest)"
proof -
  have h: "check_schema (test_env john) (json_schema john_request) = None"
    by (simp add: test_env_def john_request_def check_type_keyword_person)
  have t: "map_of (json_schema john_request) ''title'' = Some (JStr ''Person'')"
    by (simp add: john_request_def person_schema_def)
  from name_is_title_or_empty [OF h] show ?thesis
    using h t by (simp add: john_request_def)
qed

subsection \<open>The examples in the prompt\<close>

text \<open>
  Claim C8: for every list of N examples, the built prompt holds exactly N example
  exchanges, in the order of the list, before and after the text is bound; the slot of
  the input text is the last component of the template and the bound text is the last
  component of the prompt; with no examples, given as the empty list or not given, the
  prompt is the system instruction followed by the text and has no exchange.
\<close>

theorem prompt_holds_examples_in_order:
  "exchanges (make_prompt_template instr (Some es) name) =
     map (\<lambda>e. (example_text e, example_output e)) es \<and>
   exchanges (format_prompt (make_prompt_template instr (Some es) name) t) =
     map (\<lambda>e. (example_text e, example_output e)) es \<and>
   length (exchanges (format_prompt (make_prompt_template instr (Some es) name) t)) = length es \<and>
   last (make_prompt_template instr exs name) = TextSlot \<and>
   last (format_prompt (make_prompt_template instr exs name) t) = HumanMessage t \<and>
   format_prompt (make_prompt_template instr (Some []) name) t =
     [system_instruction instr name, HumanMessage t] \<and>
   format_prompt (make_prompt_template instr None name) t =
     [system_instruction instr name, HumanMessage t]"
proof -
  let ?pairs = "map (\<lambda>e. (example_text e, example_output e)) es"
  have a: "exchanges (make_prompt_template instr (Some es) name) = ?pairs"
    using exchanges_examples [of es "[TextSlot]"]
    by (simp add: make_prompt_template_def system_instruction_def)
  have b: "exchanges (format_prompt (make_prompt_template instr (Some es) name) t) = ?pairs"
    using exchanges_examples [of es "[HumanMessage t]"]
    by (simp add: make_prompt_template_def system_instruction_def format_prompt_def
          bind_examples)
  have c: "last (make_prompt_template instr exs name) = TextSlot"
    by (simp add: make_prompt_template_def)
  have d: "last (format_prompt (make_prompt_template instr exs name) t) = HumanMessage t"
    by (simp add: make_prompt_template_def format_prompt_def last_map)
  have e: "format_prompt (make_prompt_template instr (Some []) name) t =
             [system_instruction instr name, HumanMessage t]"
    by (simp add: make_prompt_template_def format_prompt_def system_instruction_def)
  have f: "format_prompt (make_prompt_template instr None name) t =
             [system_instruction instr name, HumanMessage t]"
    by (simp add: make_prompt_template_def format_prompt_def system_instruction_def)
  from a b c d e f show ?thesis by simp
qed

subsection \<open>The assertion on the stored examples\<close>

text \<open>
  Claim C9: when the identifier resolves to a stored extractor whose examples are not
  empty, the endpoint \<^verbatim>\<open>/extract\<close> fails with an assertion error instead of returning a
  response; a response is returned only when the stored examples are the empty list.
\<close>

theorem stored_examples_must_be_empty:
  assumes "query_extractor session (extractor_id rq) = Inr (Some ex)"
  shows "(extractor_examples ex \<noteq> [] \<longrightarrow>
            extract_using_existing_extractor session rq =
              (Inl AssertionError, [Lookup (extractor_id rq)])) \<and>
         (\<forall>resp. fst (extract_using_existing_extractor session rq) = Inr resp \<longrightarrow>
            extractor_examples ex = [])"
  using assms by (simp add: extract_using_existing_extractor_def)

theorem stored_examples_must_be_empty_witness:
  "query_extractor stored_extractors (extractor_id (extract_with 8)) =
     Inr (Some example_extractor) \<and>
   extractor_examples example_extractor \<noteq> [] \<and>
   extract_using_existing_extractor stored_extractors (extract_with 8) =
     (Inl AssertionError, [Lookup 8])"
proof -
  have h: "query_extractor stored_extractors (extractor_id (extract_with 8)) =
             Inr (Some example_extractor)"
    by (simp add: extract_with_def query_example)
  have ne: "extractor_examples example_extractor \<noteq> []"
    by (simp add: example_extractor_def)
  from stored_examples_must_be_empty [OF h] ne show ?thesis
    using h by (simp add: extract_with_def)
qed

subsection \<open>The invariant of a constructed request\<close>

text \<open>
  Claim C10: every successfully constructed \<^verbatim>\<open>ExtractRequest\<close> holds a schema that has
  passed \<^verbatim>\<open>validate_json_schema\<close>; the construction fails, with the validator's error,
  for every schema that the validator rejects, and a call of \<^verbatim>\<open>/extract_text\<close> with
  such a schema ends with that error after the one validation of the construction,
  before \<^verbatim>\<open>extraction_runnable\<close> is entered.
\<close>

theorem constructed_request_passed_validation:
  "(\<forall>rq tr. new_ExtractRequest env t s i e = (Inr rq, tr) \<longrightarrow>
      json_schema rq = s \<and> fst (validate_json_schema env (json_schema rq)) = Inr ()) \<and>
   (\<forall>er. fst (validate_json_schema env s) = Inl er \<longrightarrow>
      new_ExtractRequest env t s i e = (Inl er, [Validate s]) \<and>
      extract_text env t s i e = (Inl er, [Validate s]))"
proof (intro conjI allI impI)
  fix rq tr
  assume c: "new_ExtractRequest env t s i e = (Inr rq, tr)"
  then show "json_schema rq = s"
    by (auto simp: new_ExtractRequest_def validate_schema_def split: prod.splits sum.splits)
  with c show "fst (validate_json_schema env (json_schema rq)) = Inr ()"
    by (auto simp: new_ExtractRequest_def validate_schema_def split: prod.splits sum.splits)
next
  fix er
  assume r: "fst (validate_json_schema env s) = Inl er"
  then show n: "new_ExtractRequest env t s i e = (Inl er, [Validate s])"
    by (rule new_ExtractRequest_rejected)
  then show "extract_text env t s i e = (Inl er, [Validate s])"
    by (simp add: extract_text_def)
qed

theorem constructed_request_passed_validation_witness:
  "fst (validate_json_schema (test_env john) bogus_schema) =
     Inl (SchemaInvalid (CHR 0x27 # ''bogus'' @ CHR 0x27 # '' is not valid under any of the given schemas'')) \<and>
   extract_text (test_env john) ''John is 30'' bogus_schema None None =
     (Inl (SchemaInvalid (CHR 0x27 # ''bogus'' @ CHR 0x27 # '' is not valid under any of the given schemas'')),
      [Validate bogus_schema]) \<and>
   new_ExtractRequest (test_env john) ''John is 30'' person_schema None None =
     (Inr john_request, [Validate person_schema]) \<and>
   fst (validate_json_schema (test_env john) (json_schema john_request)) = Inr ()"
proof -
  have rej: "fst (validate_json_schema (test_env john) bogus_schema) =
     Inl (SchemaInvalid (CHR 0x27 # ''bogus'' @ CHR 0x27 # '' is not valid under any of the given schemas''))"
    by (simp add: validate_json_schema_def test_env_def check_type_keyword_bogus)
  have acc: "new_ExtractRequest (test_env john) ''John is 30'' person_schema None None =
     (Inr john_request, [Validate person_schema])"
    by (simp add: new_ExtractRequest_def validate_schema_def validate_json_schema_def
          test_env_def check_type_keyword_person john_request_def)
  from constructed_request_passed_validation
         [of "test_env john" "''John is 30''" bogus_schema None None]
       constructed_request_passed_validation
         [of "test_env john" "''John is 30''" person_schema None None]
  show ?thesis using rej acc by blast
qed

end
